theory Spec2Isabelle
  imports Main
begin

section \<open>Strings as the plugin uses them\<close>

text \<open>
  JavaScript strings are modelled as \<open>string\<close>. The helpers below are the string
  methods the plugin calls: \<open>startsWith\<close>, \<open>endsWith\<close>, \<open>includes\<close>,
  \<open>replace\<close> with a string pattern (first occurrence only) and \<open>trim\<close>.
  White space is the six ASCII white space characters; on ASCII text this is what
  \<open>trim\<close> and \<open>parseInt\<close> skip (they also skip some characters outside ASCII).
\<close>

fun startsWith :: "string \<Rightarrow> string \<Rightarrow> bool" where
  "startsWith s [] = True"
| "startsWith [] (p # ps) = False"
| "startsWith (c # cs) (p # ps) = (c = p \<and> startsWith cs ps)"

definition endsWith :: "string \<Rightarrow> string \<Rightarrow> bool" where
  "endsWith s p = startsWith (rev s) (rev p)"

fun includes_str :: "string \<Rightarrow> string \<Rightarrow> bool" where
  "includes_str [] p = (p = [])"
| "includes_str (c # cs) p = (startsWith (c # cs) p \<or> includes_str cs p)"

fun replace_first :: "string \<Rightarrow> string \<Rightarrow> string \<Rightarrow> string" where
  "replace_first [] p r = (if p = [] then r else [])"
| "replace_first (c # cs) p r =
     (if startsWith (c # cs) p then r @ drop (length p) (c # cs)
      else c # replace_first cs p r)"

definition is_space :: "char \<Rightarrow> bool" where
  "is_space c = (c = CHR '' '' \<or> c = CHR 0x09 \<or> c = CHR 0x0A \<or> c = CHR 0x0B
                 \<or> c = CHR 0x0C \<or> c = CHR 0x0D)"

definition trim :: "string \<Rightarrow> string" where
  "trim s = rev (dropWhile is_space (rev (dropWhile is_space s)))"

section \<open>Settings and the credential store (main.ts)\<close>

record GitCollabSettings =
  isReadOnlyMode :: bool
  repositoryUrl :: string
  isRepositoryConnected :: bool
  currentBranch :: string
  userEmail :: string
  userName :: string
  mainBranch :: string
  availableBranches :: "string list"
  lastWorkingBranch :: string
  repositoryTokens :: "string \<rightharpoonup> string"

definition DEFAULT_SETTINGS :: GitCollabSettings where
  "DEFAULT_SETTINGS =
     \<lparr> isReadOnlyMode = True, repositoryUrl = '''', isRepositoryConnected = False,
       currentBranch = ''main'', userEmail = '''', userName = '''', mainBranch = ''main'',
       availableBranches = [''main''], lastWorkingBranch = '''',
       repositoryTokens = Map.empty \<rparr>"

text \<open>
  \<open>normalizeRepositoryUrl\<close>: for a URL that contains \<open>github.com\<close>, the regular
  expression \<open>^https?://\<close> strips one leading scheme, \<open>\.git$\<close> strips one
  trailing \<open>.git\<close>, and a remainder that starts with \<open>github.com/\<close> is
  rebuilt behind \<open>https://github.com/\<close>. Every other URL is returned as it is.
\<close>

definition strip_scheme :: "string \<Rightarrow> string" where
  "strip_scheme url =
     (if startsWith url ''https://'' then drop 8 url
      else if startsWith url ''http://'' then drop 7 url
      else url)"

definition strip_git_suffix :: "string \<Rightarrow> string" where
  "strip_git_suffix s = (if endsWith s ''.git'' then take (length s - 4) s else s)"

definition normalizeRepositoryUrl :: "string \<Rightarrow> string" where
  "normalizeRepositoryUrl url =
     (if includes_str url ''github.com'' then
        (let normalized = strip_git_suffix (strip_scheme url) in
         if startsWith normalized ''github.com/''
         then ''https://github.com/'' @ drop 11 normalized
         else url)
      else url)"

text \<open>
  The spellings of the repository at path \<open>p\<close> (that is \<open>owner/repo\<close>) on
  GitHub: with either scheme or none, with or without the \<open>.git\<close> suffix.
\<close>

definition spellings :: "string \<Rightarrow> string list" where
  "spellings p =
     [scheme @ ''github.com/'' @ p @ suffix.
        scheme \<leftarrow> [''https://'', ''http://'', []], suffix \<leftarrow> [''.git'', []]]"

section \<open>The plugin object and its environment\<close>

text \<open>
  Every \<open>execAsync\<close>, \<open>fs.promises\<close> and adapter call leaves the plugin. Such a
  call either throws (with an error message) or returns (with its output); which of the
  two happens is the environment's choice. The state therefore carries \<open>responses\<close>,
  the outcome of the n-th external call for every n, and \<open>calls\<close>, the trace of
  the calls made so far. Of the repository itself only the checked-out branch matters
  to the state machine: \<open>head\<close> is what \<open>git branch --show-current\<close> prints
  (trimmed). Where a successful \<open>git checkout b\<close> leaves it is git's business,
  not the plugin's: for a branch name it is \<open>b\<close>, for \<open>HEAD\<close>, a revision, a
  path or an unquoted name that the shell splits it is something else. The payload of a
  successful checkout's outcome is therefore the branch checked out afterwards, and
  likewise for a clone (the branch the remote chose); a failed call does not move
  \<open>head\<close>. \<open>git checkout -b b\<close> creates \<open>b\<close> and moves to it.
  \<open>GitCheckout b\<close> stands for both spellings of the command in the source, with
  and without quotes around the branch name.

  Notices are kept in the order shown, without their leading pictograph. Opening a
  modal is recorded in \<open>modals\<close>; \<open>saves\<close> is the list of settings snapshots
  handed to \<open>saveData\<close>. The styling of the status bar, the ribbon and the editor
  is not part of the model; \<open>saveData\<close>, \<open>Notice\<close> and the styling calls are
  taken not to throw.
\<close>

datatype outcome = Fails string | Returns string

datatype ext_call =
    GitBranchShowCurrent
  | GitCheckout string
  | GitCheckoutNew string
  | GitBranchDelete string
  | GitBranchAll
  | GitStatusPorcelain
  | GitFetchOrigin
  | GitRevListCount string
  | GitPullOrigin string
  | GitPushOrigin string
  | GitClone string string
  | GitConfig string string
  | FsReaddir string
  | FsStat string
  | FsRm string
  | FsUnlink string
  | FsRmdir string
  | FsRename string string
  | FsAccess string
  | FsReadFile string
  | FsWriteFile string string
  | RandomBytes
  | AdapterList

datatype modal = BranchSelectionModal | SaveChangesModal

record world =
  settings :: GitCollabSettings
  isGitOperationInProgress :: bool
  fileSystemAdapter :: bool
  head :: string
  responses :: "nat \<Rightarrow> outcome"
  calls :: "ext_call list"
  notices :: "string list"
  modals :: "modal list"
  saves :: "GitCollabSettings list"

fun git_effect :: "ext_call \<Rightarrow> string \<Rightarrow> world \<Rightarrow> world" where
  "git_effect (GitCheckout b) out w = w\<lparr>head := out\<rparr>"
| "git_effect (GitCheckoutNew b) out w = w\<lparr>head := b\<rparr>"
| "git_effect (GitClone url dir) out w = w\<lparr>head := out\<rparr>"
| "git_effect c out w = w"

fun stdout_of :: "ext_call \<Rightarrow> string \<Rightarrow> world \<Rightarrow> string" where
  "stdout_of GitBranchShowCurrent out w = head w"
| "stdout_of c out w = out"

text \<open>An external call: \<open>Inl\<close> is the thrown error's message, \<open>Inr\<close> the output.\<close>

definition exec :: "ext_call \<Rightarrow> world \<Rightarrow> (string + string) \<times> world" where
  "exec c w =
     (let w1 = w\<lparr>calls := calls w @ [c]\<rparr> in
      case responses w (length (calls w)) of
        Fails msg \<Rightarrow> (Inl msg, w1)
      | Returns out \<Rightarrow> (Inr (stdout_of c out w1), git_effect c out w1))"

definition notice :: "string \<Rightarrow> world \<Rightarrow> world" where
  "notice msg w = w\<lparr>notices := notices w @ [msg]\<rparr>"

definition open_modal :: "modal \<Rightarrow> world \<Rightarrow> world" where
  "open_modal m w = w\<lparr>modals := modals w @ [m]\<rparr>"

definition saveSettings :: "world \<Rightarrow> world" where
  "saveSettings w = w\<lparr>saves := saves w @ [settings w]\<rparr>"

definition upd :: "(GitCollabSettings \<Rightarrow> GitCollabSettings) \<Rightarrow> world \<Rightarrow> world" where
  "upd f w = w\<lparr>settings := f (settings w)\<rparr>"

text \<open>
  The token table is a plain JavaScript object used as a dictionary; the map
  \<open>repositoryTokens\<close> holds its own properties. Reading a key that is not an own
  property falls through to \<open>Object.prototype\<close>: for the names listed in
  \<open>prototype_keys\<close> the read yields a member of the prototype, for every other
  name \<open>undefined\<close>. Assigning a string to \<open>__proto__\<close> runs the prototype's
  setter, which ignores it, unless the object has an own property of that name (as
  \<open>JSON.parse\<close> can create).
\<close>

definition prototype_keys :: "string list" where
  "prototype_keys =
     [''__proto__'', ''constructor'', ''hasOwnProperty'', ''isPrototypeOf'',
      ''propertyIsEnumerable'', ''toLocaleString'', ''toString'', ''valueOf'',
      ''__defineGetter__'', ''__defineSetter__'', ''__lookupGetter__'', ''__lookupSetter__'']"

datatype js_read = Undefined | StoredToken string | PrototypeMember string

definition read_key :: "(string \<rightharpoonup> string) \<Rightarrow> string \<Rightarrow> js_read" where
  "read_key table k =
     (case table k of
        Some v \<Rightarrow> StoredToken v
      | None \<Rightarrow> if k \<in> set prototype_keys then PrototypeMember k else Undefined)"

definition assign_key :: "(string \<rightharpoonup> string) \<Rightarrow> string \<Rightarrow> string \<Rightarrow> (string \<rightharpoonup> string)" where
  "assign_key table k v =
     (if k = ''__proto__'' \<and> table k = None then table else table(k \<mapsto> v))"

definition getRepositoryToken :: "string \<Rightarrow> world \<Rightarrow> js_read" where
  "getRepositoryToken url w =
     read_key (repositoryTokens (settings w)) (normalizeRepositoryUrl url)"

definition setRepositoryToken :: "string \<Rightarrow> string \<Rightarrow> world \<Rightarrow> world" where
  "setRepositoryToken url token w =
     saveSettings
       (upd (\<lambda>s. s\<lparr>repositoryTokens :=
                     assign_key (repositoryTokens s) (normalizeRepositoryUrl url) token\<rparr>) w)"

definition removeRepositoryToken :: "string \<Rightarrow> world \<Rightarrow> world" where
  "removeRepositoryToken url w =
     saveSettings
       (upd (\<lambda>s. s\<lparr>repositoryTokens :=
                     (repositoryTokens s)(normalizeRepositoryUrl url := None)\<rparr>) w)"

section \<open>Branch rules (git.ts)\<close>

definition msg_switched_for_readonly :: "string \<Rightarrow> string" where
  "msg_switched_for_readonly mb = ''Switched to '' @ mb @ '' for read-only mode''"

definition msg_cannot_edit_on_main :: "string \<Rightarrow> string" where
  "msg_cannot_edit_on_main mb =
     ''Cannot edit on '' @ mb @ '' branch. Switched to read-only mode.''"

text \<open>
  \<open>validateAndEnforceBranchRules\<close> catches every exception of its body and returns
  \<open>false\<close> then; the settings written before the throw stay written.
\<close>

definition validateAndEnforceBranchRules :: "world \<Rightarrow> bool \<times> world" where
  "validateAndEnforceBranchRules w =
     (if \<not> isRepositoryConnected (settings w) then (True, w)
      else if \<not> fileSystemAdapter w then (False, w)
      else
        case exec GitBranchShowCurrent w of
          (Inl err, w1) \<Rightarrow> (False, w1)
        | (Inr actualBranch, w1) \<Rightarrow>
            let w2 = (if mainBranch (settings w1) \<noteq> ''main'' \<and> actualBranch = ''main''
                      then saveSettings (upd (\<lambda>s. s\<lparr>mainBranch := ''main''\<rparr>) w1)
                      else w1);
                mb = mainBranch (settings w2)
            in
            if isReadOnlyMode (settings w2) \<and> actualBranch \<noteq> mb then
              (case exec (GitCheckout mb) w2 of
                 (Inl err, w3) \<Rightarrow> (False, w3)
               | (Inr out, w3) \<Rightarrow>
                   (True, notice (msg_switched_for_readonly mb)
                            (saveSettings (upd (\<lambda>s. s\<lparr>currentBranch := mb\<rparr>) w3))))
            else if \<not> isReadOnlyMode (settings w2) \<and> actualBranch = mb then
              (False, notice (msg_cannot_edit_on_main mb)
                        (saveSettings (upd (\<lambda>s. s\<lparr>isReadOnlyMode := True\<rparr>) w2)))
            else if actualBranch \<noteq> currentBranch (settings w2) then
              (True, saveSettings (upd (\<lambda>s. s\<lparr>currentBranch := actualBranch\<rparr>) w2))
            else (True, w2))"

definition checkForUncommittedChanges :: "world \<Rightarrow> bool \<times> world" where
  "checkForUncommittedChanges w =
     (if \<not> isRepositoryConnected (settings w) then (False, w)
      else if \<not> fileSystemAdapter w then (False, w)
      else
        case exec GitStatusPorcelain w of
          (Inl err, w1) \<Rightarrow> (False, w1)
        | (Inr statusOutput, w1) \<Rightarrow> (0 < length (trim statusOutput), w1))"

text \<open>
  \<open>parseInt\<close> without a radix: leading white space and one sign are skipped, a
  \<open>0x\<close> prefix selects base 16, and the longest run of digits is read; with no digit
  the result is \<open>NaN\<close>, here \<open>None\<close>, and \<open>NaN > 0\<close> is false. (Counts beyond
  the exact range of a double are not modelled.)
\<close>

definition digit_value :: "char \<Rightarrow> nat option" where
  "digit_value c =
     (let n = (of_char c :: nat) in
      if 48 \<le> n \<and> n \<le> 57 then Some (n - 48)
      else if 97 \<le> n \<and> n \<le> 102 then Some (n - 87)
      else if 65 \<le> n \<and> n \<le> 70 then Some (n - 55)
      else None)"

definition is_digit_of :: "nat \<Rightarrow> char \<Rightarrow> bool" where
  "is_digit_of radix c = (case digit_value c of None \<Rightarrow> False | Some d \<Rightarrow> d < radix)"

definition parse_digits :: "nat \<Rightarrow> string \<Rightarrow> nat option" where
  "parse_digits radix s =
     (let ds = takeWhile (is_digit_of radix) s in
      if ds = [] then None
      else Some (foldl (\<lambda>a c. a * radix + (case digit_value c of None \<Rightarrow> 0 | Some d \<Rightarrow> d)) 0 ds))"

definition parseInt :: "string \<Rightarrow> int option" where
  "parseInt s =
     (let s1 = dropWhile is_space s;
          neg = startsWith s1 ''-'';
          s2 = (if startsWith s1 ''-'' \<or> startsWith s1 ''+'' then drop 1 s1 else s1);
          hex = (startsWith s2 ''0x'' \<or> startsWith s2 ''0X'')
      in case (if hex then parse_digits 16 (drop 2 s2) else parse_digits 10 s2) of
           None \<Rightarrow> None
         | Some n \<Rightarrow> Some (if neg then - int n else int n))"

definition is_behind :: "string \<Rightarrow> bool" where
  "is_behind behindCount =
     (case parseInt (trim behindCount) of None \<Rightarrow> False | Some n \<Rightarrow> 0 < n)"

text \<open>
  \<open>git rev-list --count\<close> prints the count in decimal, followed by a newline.
\<close>

definition digit_char :: "nat \<Rightarrow> char" where
  "digit_char d = char_of (48 + d)"

fun decimal :: "nat \<Rightarrow> string" where
  "decimal n =
     (if n < 10 then [digit_char n] else decimal (n div 10) @ [digit_char (n mod 10)])"

definition rev_list_output :: "nat \<Rightarrow> string" where
  "rev_list_output n = decimal n @ [CHR 0x0A]"

definition msg_pulled_before_push :: "string \<Rightarrow> string" where
  "msg_pulled_before_push behindCount =
     ''Pulled '' @ trim behindCount @ '' update(s) from remote before pushing''"

definition msg_pull_conflict :: string where
  "msg_pull_conflict =
     ''Cannot push: Local branch is behind remote and pull failed. Please resolve conflicts manually.''"

definition push_step :: "string \<Rightarrow> world \<Rightarrow> bool \<times> world" where
  "push_step branch w =
     (case exec (GitPushOrigin branch) w of
        (Inl err, w1) \<Rightarrow> (False, w1)
      | (Inr out, w1) \<Rightarrow> (True, w1))"

text \<open>
  \<open>pushChanges\<close>: a failed fetch is logged and ignored; a failed behind-count query
  is logged and the push goes on; a failed pull returns \<open>false\<close> from inside the
  guarded block, through its \<open>finally\<close>.
\<close>

definition pushChanges :: "world \<Rightarrow> bool \<times> world" where
  "pushChanges w =
     (if \<not> isRepositoryConnected (settings w) then (False, w)
      else if \<not> fileSystemAdapter w then (False, w)
      else
        let branch = currentBranch (settings w);
            w1 = snd (exec GitFetchOrigin w)
        in
        case exec (GitRevListCount branch) w1 of
          (Inl err, w2) \<Rightarrow> push_step branch w2
        | (Inr behindCount, w2) \<Rightarrow>
            if is_behind behindCount then
              (case exec (GitPullOrigin branch) (w2\<lparr>isGitOperationInProgress := True\<rparr>) of
                 (Inl err, w3) \<Rightarrow>
                   (False, (notice msg_pull_conflict w3)\<lparr>isGitOperationInProgress := False\<rparr>)
               | (Inr out, w3) \<Rightarrow>
                   push_step branch
                     ((notice (msg_pulled_before_push behindCount) w3)
                        \<lparr>isGitOperationInProgress := False\<rparr>))
            else push_step branch w2)"

definition pullLatestChanges :: "world \<Rightarrow> bool \<times> world" where
  "pullLatestChanges w =
     (if \<not> fileSystemAdapter w then
        (False, notice ''Cannot access vault directory for Git operations'' w)
      else
        let mb = mainBranch (settings w);
            w0 = w\<lparr>isGitOperationInProgress := True\<rparr>
        in
        case exec (GitCheckout mb) w0 of
          (Inl err, w1) \<Rightarrow>
            (False, notice ''Failed to pull latest changes''
                      (w1\<lparr>isGitOperationInProgress := False\<rparr>))
        | (Inr out, w1) \<Rightarrow>
            (case exec (GitPullOrigin mb) w1 of
               (Inl err, w2) \<Rightarrow>
                 (False, notice ''Failed to pull latest changes''
                           (w2\<lparr>isGitOperationInProgress := False\<rparr>))
             | (Inr out2, w2) \<Rightarrow>
                 (True, (notice (''Pulled latest changes from '' @ mb) w2)
                          \<lparr>isGitOperationInProgress := False\<rparr>)))"

definition msg_readonly_only_main :: "string \<Rightarrow> string \<Rightarrow> string" where
  "msg_readonly_only_main branchName mb =
     ''Cannot switch to '' @ branchName @ '' in read-only mode. Only '' @ mb @ '' is allowed.''"

definition msg_edit_forbids_main :: "string \<Rightarrow> string" where
  "msg_edit_forbids_main mb =
     ''Cannot switch to '' @ mb @ '' in edit mode. Please use read-only mode for '' @ mb @ ''.''"

definition switchToBranch :: "string \<Rightarrow> world \<Rightarrow> bool \<times> world" where
  "switchToBranch branchName w =
     (let s = settings w in
      if \<not> isRepositoryConnected s then (False, notice ''No repository connected'' w)
      else if isReadOnlyMode s \<and> branchName \<noteq> mainBranch s then
        (False, notice (msg_readonly_only_main branchName (mainBranch s)) w)
      else if \<not> isReadOnlyMode s \<and> branchName = mainBranch s then
        (False, notice (msg_edit_forbids_main (mainBranch s)) w)
      else if \<not> fileSystemAdapter w then (False, notice ''Cannot access vault directory'' w)
      else
        case exec (GitCheckout branchName) w of
          (Inl err, w1) \<Rightarrow> (False, notice (''Failed to switch to branch: '' @ err) w1)
        | (Inr out, w1) \<Rightarrow>
            (True, notice (''Switched to branch: '' @ branchName)
                     (snd (validateAndEnforceBranchRules
                        (saveSettings (upd (\<lambda>s. s\<lparr>currentBranch := branchName\<rparr>) w1))))))"

section \<open>Mode transitions (readonly.ts)\<close>

text \<open>
  The optional parameter \<open>branchName?: string\<close> is a \<open>string option\<close>; JavaScript
  treats both \<open>undefined\<close> and the empty string as false.
\<close>

definition truthy :: "string option \<Rightarrow> bool" where
  "truthy b = (case b of None \<Rightarrow> False | Some x \<Rightarrow> x \<noteq> [])"

definition or_else :: "string option \<Rightarrow> string \<Rightarrow> string" where
  "or_else b d = (case b of None \<Rightarrow> d | Some x \<Rightarrow> if x = [] then d else x)"

definition msg_no_edit_on_main :: "string \<Rightarrow> string" where
  "msg_no_edit_on_main mb =
     ''Cannot enable edit mode on '' @ mb @ '' branch. Please select a different branch.''"

definition msg_edit_enabled :: string where
  "msg_edit_enabled = ''Edit Mode enabled - You can now modify files''"

definition enableEditMode :: "string option \<Rightarrow> world \<Rightarrow> world" where
  "enableEditMode branchName w =
     (let s = settings w in
      if isRepositoryConnected s \<and> \<not> truthy branchName then open_modal BranchSelectionModal w
      else
        let targetBranch = or_else branchName (currentBranch s) in
        if isRepositoryConnected s \<and> targetBranch = mainBranch s then
          notice (msg_no_edit_on_main (mainBranch s)) w
        else
          case (if isRepositoryConnected s \<and> fileSystemAdapter w
                then exec (GitCheckout targetBranch) w else (Inr [], w)) of
            (Inl err, w1) \<Rightarrow>
              notice (''Failed to switch to branch '' @ targetBranch @ '': '' @ err) w1
          | (Inr out, w1) \<Rightarrow>
              let w2 = upd (\<lambda>s. s\<lparr>isReadOnlyMode := False\<rparr>) w1;
                  w3 = (if isRepositoryConnected s \<and> truthy branchName then
                          notice (''Edit Mode enabled on branch: '' @ targetBranch)
                            (upd (\<lambda>s. s\<lparr>currentBranch := targetBranch,
                                         lastWorkingBranch := targetBranch\<rparr>) w2)
                        else notice msg_edit_enabled w2)
              in snd (validateAndEnforceBranchRules (saveSettings w3)))"

definition msg_readonly_failed :: "string \<Rightarrow> string" where
  "msg_readonly_failed mb =
     ''Cannot enable read-only mode: Failed to switch to '' @ mb @ '' branch''"

definition finish_readonly :: "world \<Rightarrow> world" where
  "finish_readonly w = snd (validateAndEnforceBranchRules (saveSettings w))"

definition forceEnableReadOnlyMode :: "world \<Rightarrow> world" where
  "forceEnableReadOnlyMode w =
     (let w0 = upd (\<lambda>s. s\<lparr>isReadOnlyMode := True\<rparr>) w;
          mb = mainBranch (settings w)
      in
      if isRepositoryConnected (settings w) then
        if fileSystemAdapter w then
          (case exec (GitCheckout mb) w0 of
             (Inl err, w1) \<Rightarrow>
               upd (\<lambda>s. s\<lparr>isReadOnlyMode := False\<rparr>) (notice (msg_readonly_failed mb) w1)
           | (Inr out, w1) \<Rightarrow>
               finish_readonly
                 (notice (''Read-Only Mode enabled - Switched to '' @ mb @ '' branch'')
                    (upd (\<lambda>s. s\<lparr>currentBranch := mb\<rparr>) w1)))
        else
          finish_readonly
            (notice ''Read-Only Mode enabled - Repository protection active''
               (upd (\<lambda>s. s\<lparr>currentBranch := mb\<rparr>) w0))
      else finish_readonly (notice ''Read-Only Mode enabled - Vault is protected'' w0))"

definition enableReadOnlyModeWithBranch :: "world \<Rightarrow> world" where
  "enableReadOnlyModeWithBranch w =
     (if isRepositoryConnected (settings w) \<and> \<not> isReadOnlyMode (settings w) then
        (case checkForUncommittedChanges w of
           (True, w1) \<Rightarrow> open_modal SaveChangesModal w1
         | (False, w1) \<Rightarrow> forceEnableReadOnlyMode w1)
      else forceEnableReadOnlyMode w)"

section \<open>Cloning (git.ts)\<close>

text \<open>
  Paths are written relative to the vault. A directory listing is the payload of the
  \<open>readdir\<close> outcome, one name per line; \<open>stat\<close> answers \<open>directory\<close> for
  a directory; \<open>RandomBytes\<close> answers the eight hex digits of the temporary
  directory's name.
\<close>

fun split_nl :: "string \<Rightarrow> string list" where
  "split_nl [] = [[]]"
| "split_nl (c # cs) =
     (if c = CHR 0x0A then [] # split_nl cs
      else (case split_nl cs of [] \<Rightarrow> [[c]] | l # ls \<Rightarrow> (c # l) # ls))"

definition listing :: "string \<Rightarrow> string list" where
  "listing out = filter (\<lambda>f. f \<noteq> []) (split_nl out)"

definition unique :: "string list \<Rightarrow> string list" where
  "unique xs = rev (remdups (rev xs))"

definition parse_branches :: "string \<Rightarrow> string list" where
  "parse_branches allBranches =
     unique
       (filter (\<lambda>b. b \<noteq> ''master'')
          (map (\<lambda>b. replace_first b ''origin/'' [])
             (filter (\<lambda>b. b \<noteq> [] \<and> \<not> startsWith b ''remotes/'')
                (map (\<lambda>b. trim (replace_first b ''*'' [])) (split_nl allBranches)))))"

definition getAuthenticatedUrl :: "string \<Rightarrow> string \<Rightarrow> string" where
  "getAuthenticatedUrl url token =
     (if includes_str url ''github.com'' then
        (let urlParts = replace_first (replace_first url ''https://github.com/'' []) ''.git'' [] in
         if token = [] then ''https://github.com/'' @ urlParts @ ''.git''
         else ''https://'' @ token @ ''@github.com/'' @ urlParts @ ''.git'')
      else url)"

definition gitignore_created :: string where
  "gitignore_created =
     concat (map (\<lambda>l. l @ [CHR 0x0A])
       [''# Obsidian configuration (added by Git Collab plugin)'', ''.obsidian/'', [],
        ''# OS generated files'', ''.DS_Store'', ''.DS_Store?'', ''._*'', ''.Spotlight-V100'',
        ''.Trashes'', ''ehthumbs.db'', ''Thumbs.db'', [],
        ''# Temporary files'', ''*.tmp'', ''*.temp'', ''*~''])"

definition gitignore_appended :: "string \<Rightarrow> string" where
  "gitignore_appended content =
     trim content @ [CHR 0x0A, CHR 0x0A]
       @ ''# Obsidian configuration (added by Git Collab plugin)'' @ [CHR 0x0A]
       @ ''.obsidian/'' @ [CHR 0x0A]"

definition create_gitignore :: "world \<Rightarrow> world" where
  "create_gitignore w =
     (case exec (FsWriteFile ''.gitignore'' gitignore_created) w of
        (Inl err, w1) \<Rightarrow> notice ''Warning: Could not create .gitignore file'' w1
      | (Inr out, w1) \<Rightarrow> notice ''.gitignore created to exclude .obsidian folder'' w1)"

definition ensureGitignoreExists :: "world \<Rightarrow> world" where
  "ensureGitignoreExists w =
     (case exec (FsAccess ''.gitignore'') w of
        (Inl err, w1) \<Rightarrow> create_gitignore w1
      | (Inr ok, w1) \<Rightarrow>
          (case exec (FsReadFile ''.gitignore'') w1 of
             (Inl err, w2) \<Rightarrow> create_gitignore w2
           | (Inr content, w2) \<Rightarrow>
               if \<not> includes_str content ''.obsidian'' then
                 (case exec (FsWriteFile ''.gitignore'' (gitignore_appended content)) w2 of
                    (Inl err, w3) \<Rightarrow> create_gitignore w3
                  | (Inr out, w3) \<Rightarrow>
                      notice ''.gitignore updated to exclude .obsidian folder'' w3)
               else w2))"

fun remove_existing :: "string list \<Rightarrow> world \<Rightarrow> world" where
  "remove_existing [] w = w"
| "remove_existing (file # files) w =
     remove_existing files
       (case exec (FsStat file) w of
          (Inl err, w1) \<Rightarrow> w1
        | (Inr st, w1) \<Rightarrow>
            snd (exec (if st = ''directory'' then FsRm file else FsUnlink file) w1))"

definition remove_git_dir :: "world \<Rightarrow> world" where
  "remove_git_dir w =
     (case exec (FsStat ''.git'') w of
        (Inl err, w1) \<Rightarrow> w1
      | (Inr st, w1) \<Rightarrow> if st = ''directory'' then snd (exec (FsRm ''.git'') w1) else w1)"

fun move_cloned :: "string \<Rightarrow> string list \<Rightarrow> world \<Rightarrow> (string + unit) \<times> world" where
  "move_cloned tempDir [] w = (Inr (), w)"
| "move_cloned tempDir (file # files) w =
     (case exec (FsRename (tempDir @ ''/'' @ file) file) w of
        (Inl err, w1) \<Rightarrow> (Inl err, w1)
      | (Inr out, w1) \<Rightarrow> move_cloned tempDir files w1)"

definition and_then ::
  "(string + 'a) \<times> world \<Rightarrow> ('a \<Rightarrow> world \<Rightarrow> (string + 'b) \<times> world) \<Rightarrow> (string + 'b) \<times> world" where
  "and_then r f = (case r of (Inl err, w) \<Rightarrow> (Inl err, w) | (Inr x, w) \<Rightarrow> f x w)"

definition config_if_set :: "string \<Rightarrow> string \<Rightarrow> world \<Rightarrow> (string + string) \<times> world" where
  "config_if_set key v w = (if v \<noteq> [] then exec (GitConfig key v) w else (Inr [], w))"

text \<open>The block that reads the cloned branch; any failure in it falls back to \<open>main\<close>.\<close>

definition clone_detect_branch :: "world \<Rightarrow> world" where
  "clone_detect_branch w =
     (let fallback = upd (\<lambda>s. s\<lparr>currentBranch := ''main'', mainBranch := ''main''\<rparr>) in
      case exec GitBranchShowCurrent w of
        (Inl err, w1) \<Rightarrow> fallback w1
      | (Inr branchName, w1) \<Rightarrow>
          if branchName = ''master'' then
            (case exec (GitCheckoutNew ''main'') w1 of
               (Inl err, w2) \<Rightarrow> fallback w2
             | (Inr out, w2) \<Rightarrow>
                 (case exec (GitBranchDelete ''master'') w2 of
                    (Inl err, w3) \<Rightarrow> fallback w3
                  | (Inr out2, w3) \<Rightarrow>
                      upd (\<lambda>s. s\<lparr>currentBranch := ''main'', mainBranch := ''main''\<rparr>)
                        (notice ''Migrated from master to main branch'' w3)))
          else upd (\<lambda>s. s\<lparr>currentBranch := branchName, mainBranch := ''main''\<rparr>) w1)"

definition clone_list_branches :: "world \<Rightarrow> world" where
  "clone_list_branches w =
     (case exec GitBranchAll w of
        (Inl err, w1) \<Rightarrow> upd (\<lambda>s. s\<lparr>availableBranches := [''main'']\<rparr>) w1
      | (Inr allBranches, w1) \<Rightarrow>
          upd (\<lambda>s. s\<lparr>availableBranches := parse_branches allBranches\<rparr>) w1)"

definition clone_into :: "string \<Rightarrow> string \<Rightarrow> string \<Rightarrow> world \<Rightarrow> (string + bool) \<times> world" where
  "clone_into url token tempDir w =
     and_then (exec (GitClone (getAuthenticatedUrl url token) tempDir) w) (\<lambda>out w1.
     and_then (exec (FsReaddir tempDir) w1) (\<lambda>clonedFiles w2.
     and_then (move_cloned tempDir (listing clonedFiles) w2) (\<lambda>u w3.
     let w4 = ensureGitignoreExists (snd (exec (FsRmdir tempDir) w3)) in
     and_then (config_if_set ''user.name'' (userName (settings w4)) w4) (\<lambda>out1 w5.
     and_then (config_if_set ''user.email'' (userEmail (settings w5)) w5) (\<lambda>out2 w6.
     let w7 = clone_list_branches (clone_detect_branch w6);
         w8 = saveSettings
                (upd (\<lambda>s. s\<lparr>isRepositoryConnected := True\<rparr>)
                   (setRepositoryToken url token (upd (\<lambda>s. s\<lparr>repositoryUrl := url\<rparr>) w7)))
     in
     and_then (exec AdapterList w8) (\<lambda>out3 w9.
       (Inr True,
        notice ''Repository cloned successfully! Files should now appear in your vault.'' w9)))))))"

definition clone_body :: "string \<Rightarrow> string \<Rightarrow> world \<Rightarrow> (string + bool) \<times> world" where
  "clone_body url token w =
     (let w0 = notice ''Cloning repository...'' w in
      if \<not> fileSystemAdapter w0 then (Inr False, notice ''Cannot access vault directory'' w0)
      else
        case exec (FsReaddir []) w0 of
          (Inl err, w1) \<Rightarrow> (Inr False, notice ''Cannot read vault directory'' w1)
        | (Inr files, w1) \<Rightarrow>
            let filesToRemove =
                  filter (\<lambda>file. file \<noteq> ''.obsidian'' \<and> file \<noteq> ''.git''
                                  \<and> \<not> startsWith file ''.tmp'' \<and> \<not> startsWith file ''.temp'')
                    (listing files);
                w2 = remove_git_dir (remove_existing filesToRemove w1)
            in
            and_then (exec RandomBytes w2) (\<lambda>hex w3.
              let tempDir = ''.temp-clone-'' @ hex in
              case clone_into url token tempDir w3 of
                (Inl cloneError, w4) \<Rightarrow> (Inl cloneError, snd (exec (FsRmdir tempDir) w4))
              | (Inr r, w4) \<Rightarrow> (Inr r, w4)))"

text \<open>
  \<open>cloneRepository\<close> raises the flag before its \<open>try\<close>, reports a thrown error in
  its \<open>catch\<close> and lowers the flag in its \<open>finally\<close>.
\<close>

definition cloneRepository :: "string \<Rightarrow> string \<Rightarrow> world \<Rightarrow> bool \<times> world" where
  "cloneRepository url token w =
     (let (r, w1) =
            (case clone_body url token (w\<lparr>isGitOperationInProgress := True\<rparr>) of
               (Inl err, w') \<Rightarrow> (False, notice (''Failed to clone repository: '' @ err) w')
             | (Inr b, w') \<Rightarrow> (b, w'))
      in (r, w1\<lparr>isGitOperationInProgress := False\<rparr>))"

section \<open>Runs of the state machine\<close>

datatype transition =
    EnableEditMode "string option"
  | EnableReadOnlyModeWithBranch
  | ForceEnableReadOnlyMode
  | SwitchToBranch string
  | ValidateAndEnforceBranchRules

fun step :: "transition \<Rightarrow> world \<Rightarrow> world" where
  "step (EnableEditMode b) w = enableEditMode b w"
| "step EnableReadOnlyModeWithBranch w = enableReadOnlyModeWithBranch w"
| "step ForceEnableReadOnlyMode w = forceEnableReadOnlyMode w"
| "step (SwitchToBranch b) w = snd (switchToBranch b w)"
| "step ValidateAndEnforceBranchRules w = snd (validateAndEnforceBranchRules w)"

fun run :: "transition list \<Rightarrow> world \<Rightarrow> world" where
  "run [] w = w"
| "run (t # ts) w = run ts (step t w)"

text \<open>The coupling of mode and branch, on the stored settings.\<close>

definition coupled :: "GitCollabSettings \<Rightarrow> bool" where
  "coupled s = (isReadOnlyMode s = (currentBranch s = mainBranch s))"

text \<open>
  \<open>synced\<close>: a repository is connected, the settings are coupled, and (where git can
  be asked at all) the stored branch is the branch git has checked out.
\<close>

definition synced :: "world \<Rightarrow> bool" where
  "synced w =
     (isRepositoryConnected (settings w) \<and> coupled (settings w) \<and>
      (if fileSystemAdapter w then head w = currentBranch (settings w) else True))"

text \<open>
  \<open>consistent\<close> is weaker: the working tree may have been moved behind the plugin's
  back, as long as the validator can repair it. That is any move while in read-only
  mode, and in edit mode a move to a branch that is neither \<open>mainBranch\<close> nor
  \<open>main\<close>.
\<close>

definition consistent :: "world \<Rightarrow> bool" where
  "consistent w =
     (isRepositoryConnected (settings w) \<and> coupled (settings w) \<and>
      (if fileSystemAdapter w
       then head w = currentBranch (settings w) \<or> isReadOnlyMode (settings w) \<or>
            (head w \<noteq> mainBranch (settings w) \<and> head w \<noteq> ''main'')
       else True))"

text \<open>
  \<open>checkouts_land\<close>: every successful \<open>git checkout b\<close> in the trace left
  \<open>b\<close> checked out. Call number \<open>n\<close> of the trace was answered by
  \<open>responses w n\<close>.
\<close>

fun landed :: "ext_call \<Rightarrow> outcome \<Rightarrow> bool" where
  "landed (GitCheckout b) (Returns out) = (out = b)"
| "landed c r = True"

fun lands_from :: "(nat \<Rightarrow> outcome) \<Rightarrow> nat \<Rightarrow> ext_call list \<Rightarrow> bool" where
  "lands_from r n [] = True"
| "lands_from r n (c # cs) = (landed c (r n) \<and> lands_from r (Suc n) cs)"

definition checkouts_land :: "world \<Rightarrow> bool" where
  "checkouts_land w = lands_from (responses w) 0 (calls w)"

text \<open>\<open>fails_at w n\<close>: the environment lets external call number \<open>n\<close> throw.\<close>

definition fails_at :: "world \<Rightarrow> nat \<Rightarrow> bool" where
  "fails_at w n = (case responses w n of Fails err \<Rightarrow> True | Returns out \<Rightarrow> False)"

definition next_call_fails :: "world \<Rightarrow> bool" where
  "next_call_fails w = fails_at w (length (calls w))"

text \<open>
  A step is \<open>admissible\<close> when its checkouts land on the branch they name, and when
  it is not a read-only transition started in read-only mode whose checkout of the main
  branch (then the next external call) fails.
\<close>

fun readonly_retry_ok :: "transition \<Rightarrow> world \<Rightarrow> bool" where
  "readonly_retry_ok EnableReadOnlyModeWithBranch w =
     (if isReadOnlyMode (settings w) then \<not> next_call_fails w else True)"
| "readonly_retry_ok ForceEnableReadOnlyMode w =
     (if isReadOnlyMode (settings w) then \<not> next_call_fails w else True)"
| "readonly_retry_ok t w = True"

definition admissible :: "transition \<Rightarrow> world \<Rightarrow> bool" where
  "admissible t w = (checkouts_land (step t w) \<and> readonly_retry_ok t w)"

fun admissible_run :: "transition list \<Rightarrow> world \<Rightarrow> bool" where
  "admissible_run [] w = True"
| "admissible_run (t # ts) w = (admissible t w \<and> admissible_run ts (step t w))"

text \<open>The two branch switches that \<open>switchToBranch\<close> forbids.\<close>

definition switch_disallowed :: "string \<Rightarrow> GitCollabSettings \<Rightarrow> bool" where
  "switch_disallowed branchName s =
     (isReadOnlyMode s \<and> branchName \<noteq> mainBranch s \<or>
      \<not> isReadOnlyMode s \<and> branchName = mainBranch s)"

section \<open>Sample states\<close>

definition fresh_world :: world where
  "fresh_world =
     \<lparr> settings = DEFAULT_SETTINGS, isGitOperationInProgress = False,
       fileSystemAdapter = True, head = ''main'', responses = (\<lambda>n. Returns []),
       calls = [], notices = [], modals = [], saves = [] \<rparr>"

definition connected_world :: world where
  "connected_world = upd (\<lambda>s. s\<lparr>isRepositoryConnected := True\<rparr>) fresh_world"

definition editing_world :: world where
  "editing_world =
     (upd (\<lambda>s. s\<lparr>isReadOnlyMode := False, currentBranch := ''feature/x'',
                  lastWorkingBranch := ''feature/x''\<rparr>) connected_world)
       \<lparr>head := ''feature/x''\<rparr>"

definition broken_git_world :: world where
  "broken_git_world = connected_world\<lparr>responses := (\<lambda>n. Fails ''git: not found'')\<rparr>"

definition behind_world :: world where
  "behind_world =
     editing_world\<lparr>responses :=
       (\<lambda>n. if n = 1 then Returns (''2'' @ [CHR 0x0A])
            else if n = 2 then Fails ''CONFLICT''
            else Returns [])\<rparr>"

definition drifted_world :: world where
  "drifted_world = editing_world\<lparr>head := ''main''\<rparr>"

definition failing_edit_world :: world where
  "failing_edit_world =
     editing_world\<lparr>responses := (\<lambda>n. Fails ''fatal: not a git repository'')\<rparr>"

text \<open>A git that checks out what it is asked for, along \<open>demo_run\<close>.\<close>

definition demo_world :: world where
  "demo_world =
     connected_world\<lparr>responses :=
       (\<lambda>n. if n = 0 then Returns ''feature/x''
            else if n = 2 then Returns ''feature/y''
            else if n = 5 then Returns ''main''
            else Returns [])\<rparr>"

text \<open>\<open>git checkout HEAD\<close> succeeds and stays where it is, on \<open>main\<close>.\<close>

definition head_world :: world where
  "head_world = connected_world\<lparr>responses := (\<lambda>n. Returns ''main'')\<rparr>"

text \<open>Read-only mode with the working tree moved to another branch.\<close>

definition moved_readonly_world :: world where
  "moved_readonly_world =
     connected_world\<lparr>head := ''feature/x'',
       responses := (\<lambda>n. if n = 1 then Returns ''main'' else Returns [])\<rparr>"


section \<open>The coupling of mode and branch\<close>

declare decimal.simps [simp del]

lemmas world_simps = exec_def notice_def open_modal_def saveSettings_def upd_def Let_def

lemmas sample_simps = fresh_world_def connected_world_def editing_world_def broken_git_world_def
  behind_world_def drifted_world_def failing_edit_world_def demo_world_def head_world_def
  moved_readonly_world_def DEFAULT_SETTINGS_def

lemmas machine_defs = enableEditMode_def switchToBranch_def
  enableReadOnlyModeWithBranch_def forceEnableReadOnlyMode_def finish_readonly_def
  checkForUncommittedChanges_def validateAndEnforceBranchRules_def truthy_def or_else_def






lemma validate_calls_grow:
  "\<exists>cs. calls (snd (validateAndEnforceBranchRules w)) = calls w @ cs"
  by (auto simp: validateAndEnforceBranchRules_def world_simps split: outcome.splits)



lemma consistent_notice [simp]: "consistent (notice m w) = consistent w"
  by (simp add: consistent_def notice_def)

lemma lands_notice [simp]: "checkouts_land (notice m w) = checkouts_land w"
  by (simp add: checkouts_land_def notice_def)

lemma consistent_modal [simp]: "consistent (open_modal m w) = consistent w"
  by (simp add: consistent_def open_modal_def)

lemma lands_modal [simp]: "checkouts_land (open_modal m w) = checkouts_land w"
  by (simp add: checkouts_land_def open_modal_def)










lemma synced_consistent: "synced w \<Longrightarrow> consistent w"
  by (auto simp: synced_def consistent_def split: if_splits)

text \<open>A validation that returns \<open>true\<close> leaves coupled settings behind.\<close>

lemma validate_establishes_coupled:
  "isRepositoryConnected (settings w) \<Longrightarrow> fst (validateAndEnforceBranchRules w)
     \<Longrightarrow> coupled (settings (snd (validateAndEnforceBranchRules w)))"
  by (auto simp: validateAndEnforceBranchRules_def coupled_def world_simps
      split: outcome.splits if_splits)




text \<open>
  In edit mode, with the working tree moved to \<open>main\<close> behind the plugin's back, the
  validator turns read-only mode on and leaves the stored \<open>currentBranch\<close> as it was.
\<close>

lemma validator_flip_keeps_stored_branch:
  "coupled (settings drifted_world) \<and> \<not> consistent drifted_world \<and>
   \<not> coupled (settings (snd (validateAndEnforceBranchRules drifted_world)))"
  by (simp add: coupled_def consistent_def sample_simps validateAndEnforceBranchRules_def
      world_simps)

text \<open>
  \<open>enableEditMode\<close> on \<open>HEAD\<close>: the checkout succeeds and the working tree stays
  on \<open>main\<close>; the validator turns read-only mode on, and the stored branch is
  \<open>HEAD\<close>.
\<close>

lemma checkout_elsewhere_breaks_coupling:
  "synced head_world \<and>
   \<not> admissible_run [EnableEditMode (Some ''HEAD'')] head_world \<and>
   isReadOnlyMode (settings (run [EnableEditMode (Some ''HEAD'')] head_world)) \<and>
   currentBranch (settings (run [EnableEditMode (Some ''HEAD'')] head_world)) = ''HEAD'' \<and>
   \<not> coupled (settings (run [EnableEditMode (Some ''HEAD'')] head_world))"
  by (simp add: synced_def coupled_def sample_simps machine_defs admissible_def
      checkouts_land_def world_simps)

section \<open>Entering edit mode on the main branch\<close>

text \<open>
  Claim C2, as stated: in every state with \<open>mainBranch = main\<close>, \<open>enableEditMode\<close>
  on \<open>main\<close> is refused and changes no setting. It fails in the default state, where
  no repository is connected: the call clears \<open>isReadOnlyMode\<close> and shows the
  edit-mode notice.
\<close>

theorem edit_main_unconnected_counterexample:
  "mainBranch (settings fresh_world) = ''main'' \<and>
   settings (enableEditMode (Some ''main'') fresh_world) \<noteq> settings fresh_world \<and>
   notices (enableEditMode (Some ''main'') fresh_world) = [msg_edit_enabled]"
  by (simp add: fresh_world_def DEFAULT_SETTINGS_def enableEditMode_def
      validateAndEnforceBranchRules_def truthy_def or_else_def world_simps)

text \<open>
  Claim C2, amended: while a repository is connected, \<open>enableEditMode\<close> on a
  (non-empty) branch name equal to \<open>mainBranch\<close> only shows the notice that edit mode
  is not allowed on that branch: no external call is made, no setting changes and
  nothing is saved.
\<close>

theorem edit_main_rejected:
  assumes "isRepositoryConnected (settings w)" and "b \<noteq> []" and "mainBranch (settings w) = b"
  shows "enableEditMode (Some b) w = notice (msg_no_edit_on_main b) w \<and>
         calls (enableEditMode (Some b) w) = calls w \<and>
         settings (enableEditMode (Some b) w) = settings w \<and>
         saves (enableEditMode (Some b) w) = saves w"
  using assms by (simp add: enableEditMode_def truthy_def or_else_def notice_def)

theorem edit_main_rejected_witness:
  "isRepositoryConnected (settings connected_world) \<and>
   mainBranch (settings connected_world) = ''main'' \<and>
   enableEditMode (Some ''main'') connected_world
     = notice ''Cannot enable edit mode on main branch. Please select a different branch.''
         connected_world \<and>
   calls (enableEditMode (Some ''main'') connected_world) = [] \<and>
   settings (enableEditMode (Some ''main'') connected_world) = settings connected_world"
proof -
  have c: "isRepositoryConnected (settings connected_world)"
    and m: "mainBranch (settings connected_world) = ''main''"
    by (simp_all add: connected_world_def fresh_world_def DEFAULT_SETTINGS_def upd_def)
  have n: "''main'' \<noteq> []" by simp
  have k: "calls connected_world = []" by (simp add: connected_world_def fresh_world_def upd_def)
  show ?thesis using c m k edit_main_rejected [OF c n m]
    by (simp add: msg_no_edit_on_main_def notice_def)
qed

section \<open>A failed checkout while entering read-only mode\<close>

lemma force_readonly_checkout_fails:
  assumes "isRepositoryConnected (settings w)" and "fileSystemAdapter w"
    and "responses w (length (calls w)) = Fails err"
  shows "forceEnableReadOnlyMode w =
           w\<lparr>settings := (settings w)\<lparr>isReadOnlyMode := False\<rparr>,
             calls := calls w @ [GitCheckout (mainBranch (settings w))],
             notices := notices w @ [msg_readonly_failed (mainBranch (settings w))]\<rparr>"
  using assms by (simp add: forceEnableReadOnlyMode_def world_simps)

text \<open>
  Claim C3: when the checkout of the main branch fails, \<open>isReadOnlyMode\<close> is to go
  back to the value it had before the call. The code writes \<open>false\<close> instead of the
  earlier value. Started in read-only mode on \<open>main\<close> with git failing, the call ends
  in edit mode with \<open>currentBranch = mainBranch\<close>, nothing saved.
\<close>

theorem force_readonly_failure_leaves_edit_on_main:
  "isRepositoryConnected (settings broken_git_world) \<and>
   isReadOnlyMode (settings broken_git_world) \<and>
   \<not> isReadOnlyMode (settings (forceEnableReadOnlyMode broken_git_world)) \<and>
   currentBranch (settings (forceEnableReadOnlyMode broken_git_world))
     = mainBranch (settings (forceEnableReadOnlyMode broken_git_world)) \<and>
   calls (forceEnableReadOnlyMode broken_git_world) = [GitCheckout ''main''] \<and>
   saves (forceEnableReadOnlyMode broken_git_world) = []"
  by (simp add: broken_git_world_def connected_world_def fresh_world_def DEFAULT_SETTINGS_def
      forceEnableReadOnlyMode_def world_simps)

section \<open>Pushing behind the remote\<close>

text \<open>
  What the plugin reads back from the count git prints: \<open>parseInt\<close> of the trimmed
  output is the count itself, so the test of \<open>pushChanges\<close> holds exactly for a
  positive count.
\<close>

lemma digit_value_digit_char: "d < 10 \<Longrightarrow> digit_value (digit_char d) = Some d"
  by (simp add: digit_value_def digit_char_def Let_def)

lemma is_digit_digit_char: "d < 10 \<Longrightarrow> is_digit_of 10 (digit_char d)"
  by (simp add: is_digit_of_def digit_value_digit_char)

lemma is_space_below_digits: "is_space c \<Longrightarrow> (of_char c :: nat) < 48"
  by (auto simp: is_space_def)

lemma digit_not_space: "is_digit_of 10 c \<Longrightarrow> \<not> is_space c"
  by (auto simp: is_digit_of_def digit_value_def is_space_def Let_def split: if_splits)

lemma decimal_digits: "\<forall>c \<in> set (decimal n). is_digit_of 10 c"
proof (induction n rule: decimal.induct)
  case (1 n)
  show ?case
  proof (cases "n < 10")
    case True
    then show ?thesis by (subst decimal.simps) (simp add: is_digit_digit_char)
  next
    case False
    then show ?thesis using 1 by (subst decimal.simps) (simp add: is_digit_digit_char)
  qed
qed

lemma decimal_nonempty: "decimal n \<noteq> []"
  by (subst decimal.simps) simp

lemma decimal_value:
  "foldl (\<lambda>a c. a * 10 + (case digit_value c of None \<Rightarrow> 0 | Some d \<Rightarrow> d)) 0 (decimal n) = n"
proof (induction n rule: decimal.induct)
  case (1 n)
  show ?case
  proof (cases "n < 10")
    case True
    then show ?thesis by (subst decimal.simps) (simp add: digit_value_digit_char)
  next
    case False
    then show ?thesis using 1
      by (subst decimal.simps) (simp add: digit_value_digit_char)
  qed
qed

lemma parse_digits_decimal: "parse_digits 10 (decimal n) = Some n"
  using decimal_digits [of n] decimal_nonempty [of n] decimal_value [of n]
  by (simp add: parse_digits_def Let_def takeWhile_eq_all_conv [THEN iffD2])

lemma trim_line:
  assumes "s \<noteq> []" and "\<forall>c \<in> set s. \<not> is_space c"
  shows "trim (s @ [CHR 0x0A]) = s"
proof -
  have a: "dropWhile is_space (s @ [CHR 0x0A]) = s @ [CHR 0x0A]"
    using assms by (cases s) simp_all
  have b: "dropWhile is_space (rev s) = rev s"
    using assms by (cases "rev s") (auto simp: dropWhile_eq_self_iff)
  show ?thesis by (simp add: trim_def a b is_space_def)
qed

lemma digits_no_prefix:
  assumes "s \<noteq> []" and "\<forall>c \<in> set s. is_digit_of 10 c"
  shows "\<not> startsWith s ''-''" "\<not> startsWith s ''+''" "\<not> startsWith s ''0x''" "\<not> startsWith s ''0X''"
    "dropWhile is_space s = s"
proof -
  obtain a r where s: "s = a # r" using assms(1) by (cases s) auto
  have a: "is_digit_of 10 a" using assms(2) s by simp
  have n: "\<not> is_digit_of 10 (CHR ''-'')" "\<not> is_digit_of 10 (CHR ''+'')"
    "\<not> is_digit_of 10 (CHR ''x'')" "\<not> is_digit_of 10 (CHR ''X'')"
    by (simp_all add: is_digit_of_def digit_value_def)
  show "\<not> startsWith s ''-''" "\<not> startsWith s ''+''" using a n s by auto
  show "\<not> startsWith s ''0x''" "\<not> startsWith s ''0X''"
    using assms(2) n s by (cases r; auto)+
  show "dropWhile is_space s = s" using a s digit_not_space by simp
qed

lemma parseInt_decimal: "parseInt (decimal n) = Some (int n)"
  using digits_no_prefix [OF decimal_nonempty decimal_digits, of n]
  by (simp add: parseInt_def Let_def parse_digits_decimal)

lemma trim_rev_list_output: "trim (rev_list_output n) = decimal n"
  unfolding rev_list_output_def
  using decimal_digits [of n] digit_not_space
  by (intro trim_line decimal_nonempty) auto

lemma is_behind_rev_list_output: "is_behind (rev_list_output n) = (0 < n)"
  by (simp add: is_behind_def trim_rev_list_output parseInt_decimal)

lemma rev_list_output_2: "rev_list_output 2 = ''2'' @ [CHR 0x0A]"
  by code_simp

lemma push_when_behind:
  assumes "isRepositoryConnected (settings w)" and "fileSystemAdapter w"
    and "responses w (length (calls w) + 1) = Returns behindCount"
    and "is_behind behindCount"
  shows "calls (snd (pushChanges w)) =
           calls w @ [GitFetchOrigin, GitRevListCount (currentBranch (settings w)),
                      GitPullOrigin (currentBranch (settings w))]
             @ (case responses w (length (calls w) + 2) of
                  Fails err \<Rightarrow> []
                | Returns out \<Rightarrow> [GitPushOrigin (currentBranch (settings w))]) \<and>
         (fails_at w (length (calls w) + 2) \<longrightarrow>
            \<not> fst (pushChanges w) \<and>
            notices (snd (pushChanges w)) = notices w @ [msg_pull_conflict])"
  using assms
  by (cases "responses w (length (calls w))";
      cases "responses w (length (calls w) + 2)";
      cases "responses w (Suc (Suc (Suc (length (calls w)))))")
     (simp_all add: pushChanges_def push_step_def fails_at_def world_simps)

lemma push_when_level:
  assumes "isRepositoryConnected (settings w)" and "fileSystemAdapter w"
    and "responses w (length (calls w) + 1) = Returns (rev_list_output 0)"
  shows "calls (snd (pushChanges w)) =
           calls w @ [GitFetchOrigin, GitRevListCount (currentBranch (settings w)),
                      GitPushOrigin (currentBranch (settings w))]"
  using assms is_behind_rev_list_output [of 0]
  by (cases "responses w (length (calls w))"; cases "responses w (length (calls w) + 2)")
     (simp_all add: pushChanges_def push_step_def world_simps)

text \<open>
  Claim C4: when \<open>git rev-list --count\<close> prints a count \<open>n > 0\<close>, the calls made
  by \<open>pushChanges\<close> are the fetch, the query, a pull of the current branch and only
  then (if the pull succeeded) the push. When the pull fails, \<open>pushChanges\<close> returns
  \<open>false\<close>, no push is among its calls, and the one notice it shows says that the
  local branch is behind, that the pull failed and that the conflicts are to be
  resolved manually.
\<close>

theorem push_preceded_by_pull:
  assumes "isRepositoryConnected (settings w)" and "fileSystemAdapter w"
    and "responses w (length (calls w) + 1) = Returns (rev_list_output n)"
    and "0 < n"
  shows "calls (snd (pushChanges w)) =
           calls w @ [GitFetchOrigin, GitRevListCount (currentBranch (settings w)),
                      GitPullOrigin (currentBranch (settings w))]
             @ (case responses w (length (calls w) + 2) of
                  Fails err \<Rightarrow> []
                | Returns out \<Rightarrow> [GitPushOrigin (currentBranch (settings w))]) \<and>
         (fails_at w (length (calls w) + 2) \<longrightarrow>
            \<not> fst (pushChanges w) \<and>
            GitPushOrigin (currentBranch (settings w))
              \<notin> set (drop (length (calls w)) (calls (snd (pushChanges w)))) \<and>
            notices (snd (pushChanges w)) = notices w @
              [''Cannot push: Local branch is behind remote and pull failed. Please resolve conflicts manually.''])"
proof -
  have b: "is_behind (rev_list_output n)"
    using assms(4) by (simp add: is_behind_rev_list_output)
  note p = push_when_behind [OF assms(1) assms(2) assms(3) b]
  show ?thesis
  proof (cases "responses w (length (calls w) + 2)")
    case (Fails err)
    then show ?thesis using p by (simp add: fails_at_def msg_pull_conflict_def)
  next
    case (Returns out)
    then show ?thesis using p by (simp add: fails_at_def)
  qed
qed

theorem push_preceded_by_pull_witness:
  "isRepositoryConnected (settings behind_world) \<and> fileSystemAdapter behind_world \<and>
   responses behind_world (length (calls behind_world) + 1) = Returns (rev_list_output 2) \<and>
   rev_list_output 2 = ''2'' @ [CHR 0x0A] \<and>
   fails_at behind_world (length (calls behind_world) + 2) \<and>
   calls (snd (pushChanges behind_world)) =
     [GitFetchOrigin, GitRevListCount ''feature/x'', GitPullOrigin ''feature/x''] \<and>
   \<not> fst (pushChanges behind_world) \<and>
   notices (snd (pushChanges behind_world)) =
     [''Cannot push: Local branch is behind remote and pull failed. Please resolve conflicts manually.'']"
proof -
  have c: "isRepositoryConnected (settings behind_world)"
    and f: "fileSystemAdapter behind_world"
    and k: "calls behind_world = []" and n: "notices behind_world = []"
    and b: "currentBranch (settings behind_world) = ''feature/x''"
    by (simp_all add: sample_simps upd_def)
  have o: "rev_list_output 2 = ''2'' @ [CHR 0x0A]" by code_simp
  have r: "responses behind_world (length (calls behind_world) + 1) = Returns (rev_list_output 2)"
    by (simp add: o) (simp add: sample_simps upd_def)
  have r2: "responses behind_world (Suc (Suc 0)) = Fails ''CONFLICT''"
    by (simp add: sample_simps upd_def)
  have x: "fails_at behind_world (length (calls behind_world) + 2)"
    using r2 by (simp add: fails_at_def k)
  have pos: "(0::nat) < 2" by simp
  show ?thesis using c f r o x push_preceded_by_pull [OF c f r pos] by (simp add: k n b r2)
qed

section \<open>The credential store\<close>

lemma includes_append: "startsWith b q \<Longrightarrow> includes_str (a @ b) q"
proof (induction a)
  case Nil
  then show ?case by (cases b; cases q) auto
next
  case (Cons c a)
  then show ?case by simp
qed

lemma strip_git_suffix_added: "strip_git_suffix (x @ ''.git'') = x"
  by (simp add: strip_git_suffix_def endsWith_def)

lemma endsWith_github: "endsWith (''github.com/'' @ p) ''.git'' = endsWith p ''.git''"
proof -
  have "startsWith (xs @ ''/moc.buhtig'') ''tig.'' = startsWith xs ''tig.''" for xs
  proof (cases xs)
    case Nil
    then show ?thesis by simp
  next
    case a: (Cons a as)
    show ?thesis
    proof (cases as)
      case Nil
      then show ?thesis using a by simp
    next
      case b: (Cons b bs)
      show ?thesis
      proof (cases bs)
        case Nil
        then show ?thesis using a b by simp
      next
        case c: (Cons c cs)
        show ?thesis using a b c by (cases cs) simp_all
      qed
    qed
  qed
  from this [of "rev p"] show ?thesis by (simp add: endsWith_def)
qed

lemma strip_git_suffix_kept:
  "\<not> endsWith p ''.git'' \<Longrightarrow> strip_git_suffix (''github.com/'' @ p) = ''github.com/'' @ p"
  using endsWith_github [of p] by (simp add: strip_git_suffix_def)

lemma finish_normal:
  "(if startsWith (''github.com/'' @ p) ''github.com/''
    then ''https://github.com/'' @ drop 11 (''github.com/'' @ p) else u)
     = ''https://github.com/'' @ p"
  by simp

lemma normalize_with_suffix:
  assumes "scheme = ''https://'' \<or> scheme = ''http://'' \<or> scheme = []"
  shows "normalizeRepositoryUrl (scheme @ ''github.com/'' @ p @ ''.git'')
           = ''https://github.com/'' @ p"
proof -
  have inc: "includes_str (scheme @ ''github.com/'' @ p @ ''.git'') ''github.com''"
    by (rule includes_append) simp
  have s: "strip_scheme (scheme @ ''github.com/'' @ p @ ''.git'') = ''github.com/'' @ p @ ''.git''"
    using assms by (elim disjE) (simp_all add: strip_scheme_def)
  have g: "strip_git_suffix (''github.com/'' @ p @ ''.git'') = ''github.com/'' @ p"
    using strip_git_suffix_added [of "''github.com/'' @ p"] by simp
  show ?thesis unfolding normalizeRepositoryUrl_def Let_def s g using inc by simp
qed

lemma normalize_without_suffix:
  assumes "scheme = ''https://'' \<or> scheme = ''http://'' \<or> scheme = []"
    and "\<not> endsWith p ''.git''"
  shows "normalizeRepositoryUrl (scheme @ ''github.com/'' @ p) = ''https://github.com/'' @ p"
proof -
  have inc: "includes_str (scheme @ ''github.com/'' @ p) ''github.com''"
    by (rule includes_append) simp
  have s: "strip_scheme (scheme @ ''github.com/'' @ p) = ''github.com/'' @ p"
    using assms(1) by (elim disjE) (simp_all add: strip_scheme_def)
  have g: "strip_git_suffix (''github.com/'' @ p) = ''github.com/'' @ p"
    using assms(2) by (rule strip_git_suffix_kept)
  show ?thesis unfolding normalizeRepositoryUrl_def Let_def s g using inc by simp
qed

lemma normalize_spelling:
  assumes "\<not> endsWith p ''.git''" and "u \<in> set (spellings p)"
  shows "normalizeRepositoryUrl u = ''https://github.com/'' @ p"
proof -
  note with_suffix =
    normalize_with_suffix [of "''https://''" p, simplified]
    normalize_with_suffix [of "''http://''" p, simplified]
    normalize_with_suffix [of "[]" p, simplified]
  note without_suffix =
    normalize_without_suffix [of "''https://''" p, simplified, OF assms(1)]
    normalize_without_suffix [of "''http://''" p, simplified, OF assms(1)]
    normalize_without_suffix [of "[]" p, simplified, OF assms(1)]
  have "\<forall>v \<in> set (spellings p). normalizeRepositoryUrl v = ''https://github.com/'' @ p"
    by (simp add: spellings_def with_suffix without_suffix)
  then show ?thesis using assms(2) by blast
qed

lemma github_key_is_plain:
  "''https://github.com/'' @ p \<noteq> ''__proto__''"
  by simp

lemma stored_under_github_key:
  assumes "normalizeRepositoryUrl u1 = ''https://github.com/'' @ p"
    and "normalizeRepositoryUrl u2 = ''https://github.com/'' @ p"
  shows "getRepositoryToken u2 (setRepositoryToken u1 t w) = StoredToken t"
  using assms
  by (simp add: getRepositoryToken_def setRepositoryToken_def read_key_def assign_key_def
      saveSettings_def upd_def)

lemma proto_key_is_not_stored:
  "repositoryTokens (settings w) ''__proto__'' = None \<Longrightarrow>
     getRepositoryToken ''__proto__'' (setRepositoryToken ''__proto__'' t w)
       = PrototypeMember ''__proto__''"
  by (simp add: getRepositoryToken_def setRepositoryToken_def read_key_def assign_key_def
      normalizeRepositoryUrl_def prototype_keys_def saveSettings_def upd_def)

text \<open>
  Claim C5: a token stored under \<open>https://github.com/owner/repo.git\<close> is the token
  read back under \<open>github.com/owner/repo\<close>. More generally: the six spellings of any
  repository path (not itself ending in \<open>.git\<close>) all have the normal form
  \<open>https://github.com/\<close> followed by the path, and a token stored under a URL with
  such a normal form is the token read under every URL with the same normal form.
\<close>

theorem token_roundtrip:
  "getRepositoryToken ''github.com/owner/repo''
     (setRepositoryToken ''https://github.com/owner/repo.git'' t w) = StoredToken t \<and>
   (\<forall>p u1 u2. \<not> endsWith p ''.git'' \<and> u1 \<in> set (spellings p) \<and> u2 \<in> set (spellings p) \<longrightarrow>
      normalizeRepositoryUrl u1 = ''https://github.com/'' @ p \<and>
      normalizeRepositoryUrl u2 = ''https://github.com/'' @ p \<and>
      getRepositoryToken u2 (setRepositoryToken u1 t w) = StoredToken t) \<and>
   (\<forall>p u1 u2. normalizeRepositoryUrl u1 = ''https://github.com/'' @ p \<and>
              normalizeRepositoryUrl u2 = ''https://github.com/'' @ p \<longrightarrow>
      getRepositoryToken u2 (setRepositoryToken u1 t w) = StoredToken t)"
proof -
  have a: "normalizeRepositoryUrl ''https://github.com/owner/repo.git''
             = ''https://github.com/'' @ ''owner/repo''"
    by (rule normalize_spelling) (simp_all add: spellings_def endsWith_def)
  have b: "normalizeRepositoryUrl ''github.com/owner/repo''
             = ''https://github.com/'' @ ''owner/repo''"
    by (rule normalize_spelling) (simp_all add: spellings_def endsWith_def)
  have first: "getRepositoryToken ''github.com/owner/repo''
     (setRepositoryToken ''https://github.com/owner/repo.git'' t w) = StoredToken t"
    using stored_under_github_key [OF a b] .
  show ?thesis using first normalize_spelling stored_under_github_key by blast
qed

theorem token_roundtrip_witness:
  "\<not> endsWith ''owner/repo'' ''.git'' \<and>
   ''http://github.com/owner/repo.git'' \<in> set (spellings ''owner/repo'') \<and>
   ''github.com/owner/repo'' \<in> set (spellings ''owner/repo'') \<and>
   normalizeRepositoryUrl ''http://github.com/owner/repo.git'' = ''https://github.com/owner/repo'' \<and>
   normalizeRepositoryUrl ''github.com/owner/repo'' = ''https://github.com/owner/repo'' \<and>
   (\<forall>t w. getRepositoryToken ''github.com/owner/repo''
            (setRepositoryToken ''http://github.com/owner/repo.git'' t w) = StoredToken t)"
proof -
  have h: "\<not> endsWith ''owner/repo'' ''.git''"
    and m1: "''http://github.com/owner/repo.git'' \<in> set (spellings ''owner/repo'')"
    and m2: "''github.com/owner/repo'' \<in> set (spellings ''owner/repo'')"
    by (simp_all add: endsWith_def spellings_def)
  have g: "normalizeRepositoryUrl ''http://github.com/owner/repo.git'' = ''https://github.com/'' @ ''owner/repo'' \<and>
      normalizeRepositoryUrl ''github.com/owner/repo'' = ''https://github.com/'' @ ''owner/repo'' \<and>
      getRepositoryToken ''github.com/owner/repo''
        (setRepositoryToken ''http://github.com/owner/repo.git'' t w) = StoredToken t" for t w
    using token_roundtrip [of t w] h m1 m2 by blast
  show ?thesis using h m1 m2 g by simp
qed

section \<open>The guard of switchToBranch\<close>

text \<open>
  Claim C6, as stated: \<open>switchToBranch\<close> is refused without a checkout in exactly
  the two disallowed cases. It is refused without a checkout in other cases too: in the
  default state no repository is connected, a switch to \<open>main\<close> in read-only mode is
  not one of the two cases, and the call returns \<open>false\<close> with the notice that no
  repository is connected.
\<close>

theorem switch_unconnected_counterexample:
  "\<not> switch_disallowed ''main'' (settings fresh_world) \<and>
   \<not> fst (switchToBranch ''main'' fresh_world) \<and>
   calls (snd (switchToBranch ''main'' fresh_world)) = [] \<and>
   notices (snd (switchToBranch ''main'' fresh_world)) = [''No repository connected'']"
  by (simp add: switch_disallowed_def switchToBranch_def sample_simps notice_def)

text \<open>
  Claim C6, amended: \<open>switchToBranch\<close> returns \<open>false\<close> with one notice as its
  only effect (no checkout, no setting changed, nothing saved) in four cases: no
  repository connected; read-only mode and a branch other than \<open>mainBranch\<close>; edit
  mode and \<open>mainBranch\<close>; and an allowed switch on a vault without file-system
  adapter. The two disallowed cases get the policy notices quoted below. In every other
  case the call starts with the checkout of the branch.
\<close>

theorem switch_refusals:
  "(\<not> isRepositoryConnected (settings w) \<longrightarrow>
      switchToBranch b w = (False, notice ''No repository connected'' w)) \<and>
   (isRepositoryConnected (settings w) \<and> isReadOnlyMode (settings w) \<and>
    b \<noteq> mainBranch (settings w) \<longrightarrow>
      switchToBranch b w =
        (False, notice (''Cannot switch to '' @ b @ '' in read-only mode. Only ''
                          @ mainBranch (settings w) @ '' is allowed.'') w)) \<and>
   (isRepositoryConnected (settings w) \<and> \<not> isReadOnlyMode (settings w) \<and>
    b = mainBranch (settings w) \<longrightarrow>
      switchToBranch b w =
        (False, notice (''Cannot switch to '' @ b @ '' in edit mode. Please use read-only mode for ''
                          @ b @ ''.'') w)) \<and>
   (isRepositoryConnected (settings w) \<and> \<not> switch_disallowed b (settings w) \<and>
    \<not> fileSystemAdapter w \<longrightarrow>
      switchToBranch b w = (False, notice ''Cannot access vault directory'' w)) \<and>
   (isRepositoryConnected (settings w) \<and> \<not> switch_disallowed b (settings w) \<and>
    fileSystemAdapter w \<longrightarrow>
      (\<exists>cs. calls (snd (switchToBranch b w)) = calls w @ GitCheckout b # cs))"
proof -
  have p1: "switchToBranch b w = (False, notice ''No repository connected'' w)"
    if "\<not> isRepositoryConnected (settings w)"
    using that by (simp add: switchToBranch_def Let_def)
  have p2: "switchToBranch b w =
        (False, notice (''Cannot switch to '' @ b @ '' in read-only mode. Only ''
                          @ mainBranch (settings w) @ '' is allowed.'') w)"
    if "isRepositoryConnected (settings w)" "isReadOnlyMode (settings w)"
       "b \<noteq> mainBranch (settings w)"
    using that by (simp add: switchToBranch_def msg_readonly_only_main_def Let_def)
  have p3: "switchToBranch b w =
        (False, notice (''Cannot switch to '' @ b @ '' in edit mode. Please use read-only mode for ''
                          @ b @ ''.'') w)"
    if "isRepositoryConnected (settings w)" "\<not> isReadOnlyMode (settings w)"
       "b = mainBranch (settings w)"
    using that by (simp add: switchToBranch_def msg_edit_forbids_main_def Let_def)
  have p4: "switchToBranch b w = (False, notice ''Cannot access vault directory'' w)"
    if "isRepositoryConnected (settings w)" "\<not> switch_disallowed b (settings w)"
       "\<not> fileSystemAdapter w"
    using that by (auto simp: switchToBranch_def switch_disallowed_def Let_def)
  have p5: "\<exists>cs. calls (snd (switchToBranch b w)) = calls w @ GitCheckout b # cs"
    if c: "isRepositoryConnected (settings w)" and d: "\<not> switch_disallowed b (settings w)"
      and f: "fileSystemAdapter w"
  proof (cases "responses w (length (calls w))")
    case (Fails err)
    then show ?thesis using c f d
      by (auto simp: switch_disallowed_def switchToBranch_def world_simps)
  next
    case (Returns out)
    define w1 where
      "w1 = saveSettings (upd (\<lambda>s. s\<lparr>currentBranch := b\<rparr>)
              (w\<lparr>calls := calls w @ [GitCheckout b], head := out\<rparr>))"
    obtain cs where cs: "calls (snd (validateAndEnforceBranchRules w1)) = calls w1 @ cs"
      using validate_calls_grow by blast
    have "snd (switchToBranch b w)
            = notice (''Switched to branch: '' @ b) (snd (validateAndEnforceBranchRules w1))"
      using c f d Returns
      by (auto simp: switch_disallowed_def switchToBranch_def w1_def world_simps)
    then show ?thesis using cs by (simp add: notice_def w1_def saveSettings_def upd_def)
  qed
  show ?thesis using p1 p2 p3 p4 p5 by blast
qed

theorem switch_refusals_witness:
  "\<not> isRepositoryConnected (settings fresh_world) \<and>
   switchToBranch ''main'' fresh_world = (False, notice ''No repository connected'' fresh_world) \<and>
   isRepositoryConnected (settings connected_world) \<and> isReadOnlyMode (settings connected_world) \<and>
   mainBranch (settings connected_world) = ''main'' \<and>
   switchToBranch ''feature/x'' connected_world =
     (False, notice ''Cannot switch to feature/x in read-only mode. Only main is allowed.''
               connected_world) \<and>
   isRepositoryConnected (settings editing_world) \<and> \<not> isReadOnlyMode (settings editing_world) \<and>
   mainBranch (settings editing_world) = ''main'' \<and>
   switchToBranch ''main'' editing_world =
     (False, notice ''Cannot switch to main in edit mode. Please use read-only mode for main.''
               editing_world) \<and>
   \<not> switch_disallowed ''feature/y'' (settings editing_world) \<and>
   \<not> fileSystemAdapter (editing_world\<lparr>fileSystemAdapter := False\<rparr>) \<and>
   switchToBranch ''feature/y'' (editing_world\<lparr>fileSystemAdapter := False\<rparr>) =
     (False, notice ''Cannot access vault directory''
               (editing_world\<lparr>fileSystemAdapter := False\<rparr>)) \<and>
   fileSystemAdapter editing_world \<and>
   (\<exists>cs. calls (snd (switchToBranch ''feature/y'' editing_world))
           = GitCheckout ''feature/y'' # cs)"
proof -
  have a: "\<not> isRepositoryConnected (settings fresh_world)"
    and b: "isRepositoryConnected (settings connected_world)"
      "isReadOnlyMode (settings connected_world)"
      "mainBranch (settings connected_world) = ''main''"
    and c: "isRepositoryConnected (settings editing_world)"
      "\<not> isReadOnlyMode (settings editing_world)"
      "mainBranch (settings editing_world) = ''main''"
      "\<not> switch_disallowed ''feature/y'' (settings editing_world)"
      "fileSystemAdapter editing_world"
    and k: "calls editing_world = []"
    by (simp_all add: switch_disallowed_def sample_simps upd_def)
  have d: "\<not> switch_disallowed ''feature/y'' (settings (editing_world\<lparr>fileSystemAdapter := False\<rparr>))"
    "isRepositoryConnected (settings (editing_world\<lparr>fileSystemAdapter := False\<rparr>))"
    using c by simp_all
  show ?thesis
    using a b c d switch_refusals [of fresh_world "''main''"]
      switch_refusals [of connected_world "''feature/x''"]
      switch_refusals [of editing_world "''main''"]
      switch_refusals [of "editing_world\<lparr>fileSystemAdapter := False\<rparr>" "''feature/y''"]
      switch_refusals [of editing_world "''feature/y''"]
    by (simp add: k)
qed

section \<open>The validator on a drifted working tree\<close>

text \<open>
  Claim C7: with a repository connected, git answering the branch query, the checked-out
  branch equal to \<open>mainBranch\<close> and the stored mode being edit mode, one call of
  \<open>validateAndEnforceBranchRules\<close> returns (it yields \<open>false\<close>, it does not throw),
  sets \<open>isReadOnlyMode\<close>, saves the settings and shows the notice that editing on the
  main branch is not possible.
\<close>

theorem validator_heals_edit_on_main:
  assumes "isRepositoryConnected (settings w)" and "fileSystemAdapter w"
    and "\<not> fails_at w (length (calls w))"
    and "head w = mainBranch (settings w)"
    and "\<not> isReadOnlyMode (settings w)"
  shows "validateAndEnforceBranchRules w =
           (False,
            w\<lparr>settings := (settings w)\<lparr>isReadOnlyMode := True\<rparr>,
              calls := calls w @ [GitBranchShowCurrent],
              saves := saves w @ [(settings w)\<lparr>isReadOnlyMode := True\<rparr>],
              notices := notices w @ [msg_cannot_edit_on_main (mainBranch (settings w))]\<rparr>) \<and>
         isReadOnlyMode (settings (snd (validateAndEnforceBranchRules w)))"
  using assms
  by (cases "responses w (length (calls w))")
     (auto simp: validateAndEnforceBranchRules_def fails_at_def world_simps)

theorem validator_heals_edit_on_main_witness:
  "isRepositoryConnected (settings drifted_world) \<and> fileSystemAdapter drifted_world \<and>
   \<not> fails_at drifted_world (length (calls drifted_world)) \<and>
   head drifted_world = mainBranch (settings drifted_world) \<and>
   \<not> isReadOnlyMode (settings drifted_world) \<and>
   isReadOnlyMode (settings (snd (validateAndEnforceBranchRules drifted_world))) \<and>
   notices (snd (validateAndEnforceBranchRules drifted_world))
     = [''Cannot edit on main branch. Switched to read-only mode.'']"
proof -
  have c: "isRepositoryConnected (settings drifted_world)"
    and f: "fileSystemAdapter drifted_world"
    and r: "\<not> fails_at drifted_world (length (calls drifted_world))"
    and h: "head drifted_world = mainBranch (settings drifted_world)"
    and m: "\<not> isReadOnlyMode (settings drifted_world)"
    by (simp_all add: sample_simps upd_def fails_at_def)
  have n: "notices drifted_world = []" and mb: "mainBranch (settings drifted_world) = ''main''"
    by (simp_all add: sample_simps upd_def)
  show ?thesis using c f r h m validator_heals_edit_on_main [OF c f r h m]
    by (simp add: n mb msg_cannot_edit_on_main_def)
qed

section \<open>The operation-in-progress flag\<close>

lemma exec_flag: "isGitOperationInProgress (snd (exec c w)) = isGitOperationInProgress w"
  by (cases c) (auto simp: exec_def Let_def split: outcome.splits)

lemma push_step_flag:
  "isGitOperationInProgress (snd (push_step b w)) = isGitOperationInProgress w"
  using exec_flag [of "GitPushOrigin b" w]
  by (auto simp: push_step_def split: prod.splits sum.splits)

lemma pushChanges_flag:
  "\<not> isGitOperationInProgress w \<Longrightarrow> \<not> isGitOperationInProgress (snd (pushChanges w))"
  by (auto simp: pushChanges_def push_step_flag world_simps push_step_def
      split: outcome.splits)

lemma pullLatestChanges_flag:
  "\<not> isGitOperationInProgress w \<Longrightarrow> \<not> isGitOperationInProgress (snd (pullLatestChanges w))"
  by (auto simp: pullLatestChanges_def world_simps split: outcome.splits)

lemma cloneRepository_flag: "\<not> isGitOperationInProgress (snd (cloneRepository url token w))"
  by (simp add: cloneRepository_def Let_def split: prod.splits sum.splits)

text \<open>
  Claim C8: the flag is private to the plugin, starts out false and is written by
  \<open>pushChanges\<close>, \<open>pullLatestChanges\<close> and \<open>cloneRepository\<close> only. Entered with
  the flag down, each of the three ends with the flag down, whatever the environment
  answers: on success, on a \<open>false\<close> result and when a git or file-system step throws.
\<close>

theorem operation_flag_released:
  "\<not> isGitOperationInProgress w \<Longrightarrow>
     \<not> isGitOperationInProgress (snd (pushChanges w)) \<and>
     \<not> isGitOperationInProgress (snd (pullLatestChanges w)) \<and>
     \<not> isGitOperationInProgress (snd (cloneRepository url token w))"
proof -
  assume down: "\<not> isGitOperationInProgress w"
  have push: "\<not> isGitOperationInProgress (snd (pushChanges w))"
    using down by (rule pushChanges_flag)
  have pull: "\<not> isGitOperationInProgress (snd (pullLatestChanges w))"
    using down by (rule pullLatestChanges_flag)
  have clone: "\<not> isGitOperationInProgress (snd (cloneRepository url token w))"
    by (rule cloneRepository_flag)
  from push pull clone show ?thesis by simp
qed

theorem operation_flag_released_witness:
  "\<not> isGitOperationInProgress broken_git_world \<and>
   \<not> isGitOperationInProgress behind_world \<and>
   \<not> isGitOperationInProgress (snd (pushChanges behind_world)) \<and>
   \<not> isGitOperationInProgress (snd (pullLatestChanges broken_git_world)) \<and>
   \<not> isGitOperationInProgress
        (snd (cloneRepository ''https://github.com/owner/repo.git'' ''token'' broken_git_world))"
proof -
  have a: "\<not> isGitOperationInProgress broken_git_world"
    and b: "\<not> isGitOperationInProgress behind_world"
    by (simp_all add: sample_simps upd_def)
  show ?thesis
    using a b
      operation_flag_released [OF a, of "''https://github.com/owner/repo.git''" "''token''"]
      operation_flag_released [OF b, of "''https://github.com/owner/repo.git''" "''token''"]
    by simp
qed

section \<open>The check for uncommitted changes\<close>

lemma validate_modals: "modals (snd (validateAndEnforceBranchRules w)) = modals w"
  by (auto simp: validateAndEnforceBranchRules_def world_simps split: outcome.splits)

lemma force_modals: "modals (forceEnableReadOnlyMode w) = modals w"
  by (auto simp: forceEnableReadOnlyMode_def finish_readonly_def validate_modals world_simps
      split: outcome.splits)

text \<open>
  Claim C9: \<open>checkForUncommittedChanges\<close> always returns a value. It is \<open>false\<close>
  with no repository connected, and \<open>false\<close> when the status query throws, which is
  also its answer for a clean tree (an empty status). So in edit mode, with the status
  query failing, \<open>enableReadOnlyModeWithBranch\<close> goes straight on to
  \<open>forceEnableReadOnlyMode\<close> and opens no modal.
\<close>

theorem uncommitted_check_swallows_failure:
  "(\<not> isRepositoryConnected (settings w) \<longrightarrow> checkForUncommittedChanges w = (False, w)) \<and>
   (isRepositoryConnected (settings w) \<and> fileSystemAdapter w \<and> next_call_fails w \<longrightarrow>
      checkForUncommittedChanges w = (False, w\<lparr>calls := calls w @ [GitStatusPorcelain]\<rparr>) \<and>
      (\<not> isReadOnlyMode (settings w) \<longrightarrow>
         enableReadOnlyModeWithBranch w
           = forceEnableReadOnlyMode (w\<lparr>calls := calls w @ [GitStatusPorcelain]\<rparr>) \<and>
         modals (enableReadOnlyModeWithBranch w) = modals w)) \<and>
   (isRepositoryConnected (settings w) \<and> fileSystemAdapter w \<and>
    responses w (length (calls w)) = Returns [] \<longrightarrow>
      checkForUncommittedChanges w = (False, w\<lparr>calls := calls w @ [GitStatusPorcelain]\<rparr>))"
proof -
  have p1: "checkForUncommittedChanges w = (False, w)" if "\<not> isRepositoryConnected (settings w)"
    using that by (simp add: checkForUncommittedChanges_def)
  have p2: "checkForUncommittedChanges w = (False, w\<lparr>calls := calls w @ [GitStatusPorcelain]\<rparr>)"
    if "isRepositoryConnected (settings w)" "fileSystemAdapter w" "next_call_fails w"
    using that
    by (cases "responses w (length (calls w))")
       (simp_all add: checkForUncommittedChanges_def next_call_fails_def fails_at_def world_simps)
  have p3: "enableReadOnlyModeWithBranch w
              = forceEnableReadOnlyMode (w\<lparr>calls := calls w @ [GitStatusPorcelain]\<rparr>) \<and>
            modals (enableReadOnlyModeWithBranch w) = modals w"
    if "isRepositoryConnected (settings w)" "fileSystemAdapter w" "next_call_fails w"
       "\<not> isReadOnlyMode (settings w)"
    using that p2 by (simp add: enableReadOnlyModeWithBranch_def force_modals)
  have p4: "checkForUncommittedChanges w = (False, w\<lparr>calls := calls w @ [GitStatusPorcelain]\<rparr>)"
    if "isRepositoryConnected (settings w)" "fileSystemAdapter w"
       "responses w (length (calls w)) = Returns []"
    using that by (simp add: checkForUncommittedChanges_def trim_def world_simps)
  show ?thesis using p1 p2 p3 p4 by blast
qed

theorem uncommitted_check_swallows_failure_witness:
  "\<not> isRepositoryConnected (settings fresh_world) \<and>
   checkForUncommittedChanges fresh_world = (False, fresh_world) \<and>
   isRepositoryConnected (settings failing_edit_world) \<and> fileSystemAdapter failing_edit_world \<and>
   next_call_fails failing_edit_world \<and> \<not> isReadOnlyMode (settings failing_edit_world) \<and>
   fst (checkForUncommittedChanges failing_edit_world) = False \<and>
   modals (enableReadOnlyModeWithBranch failing_edit_world) = [] \<and>
   isRepositoryConnected (settings editing_world) \<and> fileSystemAdapter editing_world \<and>
   responses editing_world (length (calls editing_world)) = Returns [] \<and>
   fst (checkForUncommittedChanges editing_world) = False"
proof -
  have a: "\<not> isRepositoryConnected (settings fresh_world)"
    by (simp add: sample_simps)
  have b: "isRepositoryConnected (settings failing_edit_world)"
    "fileSystemAdapter failing_edit_world" "next_call_fails failing_edit_world"
    "\<not> isReadOnlyMode (settings failing_edit_world)" "modals failing_edit_world = []"
    by (simp_all add: sample_simps upd_def next_call_fails_def fails_at_def)
  have c: "isRepositoryConnected (settings editing_world)" "fileSystemAdapter editing_world"
    "responses editing_world (length (calls editing_world)) = Returns []"
    by (simp_all add: sample_simps upd_def)
  show ?thesis
    using a b c uncommitted_check_swallows_failure [of fresh_world]
      uncommitted_check_swallows_failure [of failing_edit_world]
      uncommitted_check_swallows_failure [of editing_world]
    by (simp add: force_modals)
qed

section \<open>Edit mode without a repository\<close>

text \<open>
  Claim C10: with no repository connected, \<open>enableEditMode\<close>, whatever branch name
  it is given (none, or even \<open>mainBranch\<close>), clears \<open>isReadOnlyMode\<close>, shows the
  plain edit-mode notice and saves the settings; it makes no external call and refuses
  nothing.
\<close>

theorem edit_mode_without_repository:
  assumes "\<not> isRepositoryConnected (settings w)"
  shows "enableEditMode b w =
           w\<lparr>settings := (settings w)\<lparr>isReadOnlyMode := False\<rparr>,
             notices := notices w @ [msg_edit_enabled],
             saves := saves w @ [(settings w)\<lparr>isReadOnlyMode := False\<rparr>]\<rparr> \<and>
         \<not> isReadOnlyMode (settings (enableEditMode b w)) \<and>
         calls (enableEditMode b w) = calls w \<and>
         last (saves (enableEditMode b w)) = settings (enableEditMode b w)"
  using assms
  by (simp add: enableEditMode_def validateAndEnforceBranchRules_def world_simps)

theorem edit_mode_without_repository_witness:
  "\<not> isRepositoryConnected (settings fresh_world) \<and>
   mainBranch (settings fresh_world) = ''main'' \<and>
   \<not> isReadOnlyMode (settings (enableEditMode (Some ''main'') fresh_world)) \<and>
   \<not> isReadOnlyMode (settings (enableEditMode None fresh_world)) \<and>
   calls (enableEditMode (Some ''main'') fresh_world) = [] \<and>
   saves (enableEditMode None fresh_world) = [DEFAULT_SETTINGS\<lparr>isReadOnlyMode := False\<rparr>]"
proof -
  have a: "\<not> isRepositoryConnected (settings fresh_world)"
    by (simp add: sample_simps)
  have b: "mainBranch (settings fresh_world) = ''main''" "calls fresh_world = []"
    "saves fresh_world = []" "settings fresh_world = DEFAULT_SETTINGS"
    by (simp_all add: sample_simps)
  show ?thesis
    using a b edit_mode_without_repository [OF a, of "Some ''main''"]
      edit_mode_without_repository [OF a, of None]
    by simp
qed

end
